theory Spec2Isabelle
  imports Complex_Main
begin

section \<open>Data model\<close>

text \<open>
  The repository wraps the \<^verbatim>\<open>canvas-confetti\<close> rendering primitive in a class
  \<^verbatim>\<open>Confetti\<close>. The source holds two variants of that class: the one whose effect
  methods take a single options object (with \<^verbatim>\<open>reset\<close> and a tracked animation frame),
  and an older one whose methods take a colour array and an options object. The first is
  embedded in full; of the second, the burst path of \<^verbatim>\<open>cannon\<close> is embedded under names
  ending in \<open>_colors\<close>.

  JavaScript numbers are modelled as exact rationals. Timer handles are natural numbers.
\<close>

datatype shape =
    Str string              \<comment> \<open>a string entry: a built-in name or any other text\<close>
  | FromText string rat     \<comment> \<open>result of \<^verbatim>\<open>confetti.shapeFromText({text, scalar})\<close>\<close>
  | ShapeObject nat         \<comment> \<open>any other non-string shape object\<close>

datatype jsval =
    Num rat
  | Bool bool
  | Colors "string list"
  | Shapes "shape list"
  | Origin "rat option" "rat option"   \<comment> \<open>\<^verbatim>\<open>{x?, y?}\<close>\<close>

datatype field =
    FColors | FShapes | FParticleCount | FSpread | FStartVelocity | FDecay | FScalar
  | FAngle | FOrigin | FDelay | FDuration | FTicks | FZIndex | FGravity | FDrift
  | FFlat | FDisableForReducedMotion

text \<open>
  An options object is a finite map from property names to values; a property that is
  absent reads as \<^verbatim>\<open>undefined\<close>. Object spread \<^verbatim>\<open>{...a, ...b}\<close> is \<open>a ++ b\<close>.
\<close>

type_synonym config = "field \<Rightarrow> jsval option"

text \<open>\<^verbatim>\<open>options?.f || d\<close> for a numeric property: \<^verbatim>\<open>undefined\<close> and \<^verbatim>\<open>0\<close> are falsy.\<close>

definition num_or :: "config \<Rightarrow> field \<Rightarrow> rat \<Rightarrow> rat" where
  "num_or options f d =
     (case options f of Some (Num n) \<Rightarrow> if n = 0 then d else n | _ \<Rightarrow> d)"

text \<open>\<^verbatim>\<open>options.f || d\<close> for an array property: every array is truthy.\<close>

definition val_or :: "config \<Rightarrow> field \<Rightarrow> jsval \<Rightarrow> jsval" where
  "val_or options f d = (case options f of Some v \<Rightarrow> v | None \<Rightarrow> d)"

datatype effect_name =
    MCannon | MRandomDirection | MRealistic | MFireworks | MStars | MSnow | MFall
  | MPride | MReset

text \<open>
  Closures handed to \<^verbatim>\<open>setTimeout\<close>, \<^verbatim>\<open>setInterval\<close> and \<^verbatim>\<open>requestAnimationFrame\<close>,
  each with the variables it captures.
\<close>

datatype callback =
    LaunchCb config
      \<comment> \<open>\<^verbatim>\<open>() => this.launchConfetti(options)\<close>\<close>
  | LaunchCb_colors "string list option" config
      \<comment> \<open>\<^verbatim>\<open>() => this.launchConfetti(colors, options)\<close> of the colour variant\<close>
  | InfiniteTick effect_name rat rat "config option"
      \<comment> \<open>interval body of \<^verbatim>\<open>infinite\<close>: effect_name, end, delay, options\<close>
  | InfiniteCall effect_name "config option"
      \<comment> \<open>\<^verbatim>\<open>() => methodFunction.call(this, options)\<close>\<close>
  | FireworksTick rat config
      \<comment> \<open>interval body of \<^verbatim>\<open>fireworks\<close>: animationEnd, options\<close>
  | SnowStart config
      \<comment> \<open>the delayed body of \<^verbatim>\<open>snow\<close>\<close>
  | SnowFrame rat rat config
      \<comment> \<open>\<^verbatim>\<open>frame\<close> of \<^verbatim>\<open>snow\<close>: animationEnd, skew, options\<close>
  | FallShoot config "shape list"
      \<comment> \<open>\<^verbatim>\<open>shoot\<close> of \<^verbatim>\<open>fall\<close>: options, processedShapes\<close>
  | PrideFrame rat config
      \<comment> \<open>\<^verbatim>\<open>frame\<close> of \<^verbatim>\<open>pride\<close>: end, options\<close>
  | FadeTick rat nat config
      \<comment> \<open>interval body of the smooth \<^verbatim>\<open>reset\<close>: steps, currentStep, options\<close>

datatype timer_kind = Timeout | Interval rat | Frame

datatype task = Task (handle: nat) (kind: timer_kind) (due: rat) (cb: callback)

datatype surface = DefaultSurface | CanvasSurface nat

text \<open>Calls that leave the class: the rendering primitive, the console, the timer API.\<close>

datatype event =
    Confetti surface config     \<comment> \<open>one burst: \<^verbatim>\<open>confetti(cfg)\<close> or \<^verbatim>\<open>confettiInstance(cfg)\<close>\<close>
  | ConfettiReset               \<comment> \<open>\<^verbatim>\<open>confetti.reset()\<close>, the global clear\<close>
  | Warn string                 \<comment> \<open>\<^verbatim>\<open>console.warn\<close>\<close>
  | ClearInterval nat
  | CancelAnimationFrame nat

text \<open>
  The four private fields of the class, then the environment it runs in: the clock read
  by \<^verbatim>\<open>Date.now()\<close>, the pending timers and frame requests in the order they were
  armed, the next free handle, the values \<^verbatim>\<open>Math.random()\<close> will return, the time
  between a frame request and its frame, and the calls made so far.
\<close>

record state =
  defaults :: config
  confettiInstance :: "nat option"
  timerId :: "nat option"
  animationFrameId :: "nat option"
  clock :: rat
  pending :: "task list"
  nextHandle :: nat
  rand :: "nat \<Rightarrow> rat"
  randIx :: nat
  framePeriod :: rat
  trace :: "event list"

section \<open>The environment: timers, frames, random numbers\<close>

definition emit :: "event \<Rightarrow> state \<Rightarrow> state" where
  "emit e s = s\<lparr>trace := trace s @ [e]\<rparr>"

text \<open>
  A timer delay is truncated to whole milliseconds and a negative one counts as zero
  (delays stay far below \<open>2 ^ 31\<close>, where the browser would wrap).
\<close>

definition ms :: "rat \<Rightarrow> rat" where
  "ms d = max 0 (of_int \<lfloor>d\<rfloor>)"

definition arm :: "timer_kind \<Rightarrow> rat \<Rightarrow> callback \<Rightarrow> state \<Rightarrow> nat \<times> state" where
  "arm k d c s =
     (nextHandle s,
      s\<lparr>pending := pending s @ [Task (nextHandle s) k (clock s + d) c],
        nextHandle := Suc (nextHandle s)\<rparr>)"

definition setTimeout :: "callback \<Rightarrow> rat \<Rightarrow> state \<Rightarrow> nat \<times> state" where
  "setTimeout c d s = arm Timeout (ms d) c s"

definition setInterval :: "callback \<Rightarrow> rat \<Rightarrow> state \<Rightarrow> nat \<times> state" where
  "setInterval c d s = arm (Interval (ms d)) (ms d) c s"

definition requestAnimationFrame :: "callback \<Rightarrow> state \<Rightarrow> nat \<times> state" where
  "requestAnimationFrame c s = arm Frame (framePeriod s) c s"

text \<open>
  \<^verbatim>\<open>clearInterval\<close> cancels the timeout or interval with that handle;
  \<^verbatim>\<open>cancelAnimationFrame\<close> cancels the frame request with that handle.
\<close>

definition clearInterval :: "nat \<Rightarrow> state \<Rightarrow> state" where
  "clearInterval h s =
     emit (ClearInterval h)
       (s\<lparr>pending := filter (\<lambda>t. \<not> (handle t = h \<and> kind t \<noteq> Frame)) (pending s)\<rparr>)"

definition cancelAnimationFrame :: "nat \<Rightarrow> state \<Rightarrow> state" where
  "cancelAnimationFrame h s =
     emit (CancelAnimationFrame h)
       (s\<lparr>pending := filter (\<lambda>t. \<not> (handle t = h \<and> kind t = Frame)) (pending s)\<rparr>)"

definition random :: "state \<Rightarrow> rat \<times> state" where
  "random s = (rand s (randIx s), s\<lparr>randIx := Suc (randIx s)\<rparr>)"

text \<open>\<^verbatim>\<open>if (this.timerId)\<close>: \<^verbatim>\<open>null\<close> and the number \<^verbatim>\<open>0\<close> are falsy.\<close>

definition truthy :: "nat option \<Rightarrow> bool" where
  "truthy h = (case h of None \<Rightarrow> False | Some n \<Rightarrow> n \<noteq> 0)"

section \<open>The class \<^verbatim>\<open>Confetti\<close>\<close>

definition builtin_defaults :: config where
  "builtin_defaults =
     [FColors \<mapsto> Colors [''#a864fd'', ''#29cdff'', ''#78ff44'', ''#ff718d'', ''#fdff6a'', ''#9400D3''],
      FParticleCount \<mapsto> Num 200,
      FSpread \<mapsto> Num 60,
      FStartVelocity \<mapsto> Num 30,
      FDecay \<mapsto> Num (9 / 10),
      FScalar \<mapsto> Num 1,
      FAngle \<mapsto> Num 90,
      FOrigin \<mapsto> Origin (Some (1 / 2)) (Some (1 / 2))]"

text \<open>
  The constructor, in an environment given by the clock, the random values and the frame
  period. Browser timer handles start at 1.
\<close>

definition new_Confetti :: "config \<Rightarrow> rat \<Rightarrow> (nat \<Rightarrow> rat) \<Rightarrow> rat \<Rightarrow> state" where
  "new_Confetti config now rnd fp =
     \<lparr>defaults = builtin_defaults ++ config,
      confettiInstance = None,
      timerId = None,
      animationFrameId = None,
      clock = now,
      pending = [],
      nextHandle = 1,
      rand = rnd,
      randIx = 0,
      framePeriod = fp,
      trace = []\<rparr>"

definition the_surface :: "state \<Rightarrow> surface" where
  "the_surface s = (case confettiInstance s of Some c \<Rightarrow> CanvasSurface c | None \<Rightarrow> DefaultSurface)"

definition launchConfetti :: "config \<Rightarrow> state \<Rightarrow> state" where
  "launchConfetti options s = emit (Confetti (the_surface s) (defaults s ++ options)) s"

definition launchConfettiWithDelay :: "config \<Rightarrow> state \<Rightarrow> state" where
  "launchConfettiWithDelay options s =
     snd (setTimeout (LaunchCb options) (num_or options FDelay 0) s)"

definition custom :: "config \<Rightarrow> state \<Rightarrow> state" where
  "custom options s = launchConfettiWithDelay options s"

definition stopInfinite :: "state \<Rightarrow> state" where
  "stopInfinite s =
     (if truthy (timerId s)
      then (clearInterval (the (timerId s)) s)\<lparr>timerId := None\<rparr>
      else s)"

definition infinite :: "effect_name \<Rightarrow> rat \<Rightarrow> rat \<Rightarrow> config option \<Rightarrow> state \<Rightarrow> state" where
  "infinite m interval duration options s =
     (let end = clock s + duration;
          delay = (case options of None \<Rightarrow> 0 | Some opts \<Rightarrow> num_or opts FDelay 0);
          (h, s1) = setInterval (InfiniteTick m end delay options) interval s
      in s1\<lparr>timerId := Some h\<rparr>)"

definition cannon :: "config \<Rightarrow> state \<Rightarrow> state" where
  "cannon options s =
     launchConfettiWithDelay ([FParticleCount \<mapsto> Num 100] ++ options) s"

definition randomDirection :: "config \<Rightarrow> state \<Rightarrow> state" where
  "randomDirection options s =
     (let (r1, s1) = random s;
          (r2, s2) = random s1;
          (r3, s3) = random s2
      in launchConfettiWithDelay
           ([FParticleCount \<mapsto> Num (of_int \<lfloor>r1 * 300\<rfloor>),
             FSpread \<mapsto> Num (of_int \<lfloor>r2 * 360\<rfloor>),
             FAngle \<mapsto> Num (of_int \<lfloor>r3 * 360\<rfloor>)] ++ options) s3)"

text \<open>The inner \<^verbatim>\<open>fire\<close> of \<^verbatim>\<open>realistic\<close>, with \<^verbatim>\<open>count = 200\<close>.\<close>

definition realistic_fire :: "config \<Rightarrow> rat \<Rightarrow> config \<Rightarrow> state \<Rightarrow> state" where
  "realistic_fire options particleRatio opts s =
     launchConfettiWithDelay
       ([FOrigin \<mapsto> Origin None (Some (7 / 10))]
          ++ [FParticleCount \<mapsto> Num (of_int \<lfloor>200 * particleRatio\<rfloor>)]
          ++ opts ++ options) s"

definition realistic :: "config \<Rightarrow> state \<Rightarrow> state" where
  "realistic options s =
     (let fire = realistic_fire options;
          s1 = fire (25 / 100) [FSpread \<mapsto> Num 26, FStartVelocity \<mapsto> Num 55] s;
          s2 = fire (2 / 10) [FSpread \<mapsto> Num 60] s1;
          s3 = fire (35 / 100) [FSpread \<mapsto> Num 100, FDecay \<mapsto> Num (91 / 100), FScalar \<mapsto> Num (8 / 10)] s2;
          s4 = fire (1 / 10) [FSpread \<mapsto> Num 120, FStartVelocity \<mapsto> Num 25, FDecay \<mapsto> Num (92 / 100),
                              FScalar \<mapsto> Num (12 / 10)] s3
      in fire (1 / 10) [FSpread \<mapsto> Num 120, FStartVelocity \<mapsto> Num 45] s4)"

definition randomInRange :: "rat \<Rightarrow> rat \<Rightarrow> rat \<Rightarrow> rat" where
  "randomInRange r lo hi = r * (hi - lo) + lo"

text \<open>The inner \<^verbatim>\<open>fire\<close> of \<^verbatim>\<open>fireworks\<close>: two delayed bursts, four random draws.\<close>

definition fireworks_fire :: "config \<Rightarrow> rat \<Rightarrow> state \<Rightarrow> state" where
  "fireworks_fire options particleCount s =
     (let dflt = [FStartVelocity \<mapsto> Num 30, FSpread \<mapsto> Num 360, FTicks \<mapsto> Num 60, FZIndex \<mapsto> Num 0];
          (r1, s1) = random s;
          (r2, s2) = random s1;
          s3 = launchConfettiWithDelay
                 (dflt ++ [FParticleCount \<mapsto> Num particleCount,
                           FOrigin \<mapsto> Origin (Some (randomInRange r1 (1 / 10) (3 / 10))) (Some (r2 - 2 / 10))]
                       ++ options) s2;
          (r3, s4) = random s3;
          (r4, s5) = random s4
      in launchConfettiWithDelay
           (dflt ++ [FParticleCount \<mapsto> Num particleCount,
                     FOrigin \<mapsto> Origin (Some (randomInRange r3 (7 / 10) (9 / 10))) (Some (r4 - 2 / 10))]
                 ++ options) s5)"

definition fireworks :: "config \<Rightarrow> state \<Rightarrow> state" where
  "fireworks options s =
     (let animationEnd = clock s + num_or options FDuration 15000;
          (interval, s1) = setInterval (FireworksTick animationEnd options) 250 s
      in s1\<lparr>timerId := Some interval\<rparr>)"

definition stars :: "config \<Rightarrow> state \<Rightarrow> state" where
  "stars options s =
     launchConfettiWithDelay
       ([FParticleCount \<mapsto> Num 40,
         FShapes \<mapsto> Shapes [Str ''star''],
         FColors \<mapsto> Colors [''FFE400'', ''FFBD00'', ''E89400'', ''FFCA6C'', ''FDFFB8''],
         FScalar \<mapsto> Num (12 / 10)] ++ options) s"

definition snow :: "config \<Rightarrow> state \<Rightarrow> state" where
  "snow options s = snd (setTimeout (SnowStart options) (num_or options FDelay 0) s)"

section \<open>\<^verbatim>\<open>fall\<close> and its shape processing\<close>

definition validShapes :: "shape list" where
  "validShapes = [Str ''circle'', Str ''square'', Str ''star'']"

text \<open>How a template literal prints a shape: a string as itself, an object as below.\<close>

fun shape_text :: "shape \<Rightarrow> string" where
  "shape_text (Str t) = t"
| "shape_text _ = ''[object Object]''"

text \<open>\<^verbatim>\<open>typeof shape === 'string'\<close>\<close>

fun is_string :: "shape \<Rightarrow> bool" where
  "is_string (Str t) = True"
| "is_string _ = False"

text \<open>
  The body of the \<^verbatim>\<open>map\<close> callback in \<^verbatim>\<open>fall\<close>: the processed shape and the warnings
  it logs.
\<close>

definition processShape :: "config \<Rightarrow> shape \<Rightarrow> shape \<times> string list" where
  "processShape options sh =
     (if is_string sh \<and> sh \<notin> set validShapes
      then (FromText (shape_text sh) (num_or options FScalar 1), [])
      else if sh \<in> set validShapes then (sh, [])
      else (Str ''circle'', [''Invalid shape: '' @ shape_text sh @ '', defaulting to circle.'']))"

fun processShapes :: "config \<Rightarrow> shape list \<Rightarrow> state \<Rightarrow> shape list \<times> state" where
  "processShapes options [] s = ([], s)"
| "processShapes options (sh # shs) s =
     (let (p, ws) = processShape options sh;
          (ps, s') = processShapes options shs (foldl (\<lambda>st w. emit (Warn w) st) s ws)
      in (p # ps, s'))"

definition fall :: "config \<Rightarrow> state \<Rightarrow> state" where
  "fall options s =
     (let given = (case options FShapes of Some (Shapes shs) \<Rightarrow> shs | _ \<Rightarrow> validShapes);
          (processedShapes, s1) = processShapes options given s
      in snd (setTimeout (FallShoot options processedShapes) (num_or options FDelay 0) s1))"

text \<open>One pass of the loop body in \<^verbatim>\<open>shoot\<close>.\<close>

definition fall_burst :: "config \<Rightarrow> shape list \<Rightarrow> state \<Rightarrow> state" where
  "fall_burst options processedShapes s =
     (let (r1, s1) = random s;
          (r2, s2) = random s1
      in launchConfettiWithDelay
           ([FParticleCount \<mapsto> Num (num_or options FParticleCount 50),
             FStartVelocity \<mapsto> Num (num_or options FStartVelocity 20),
             FGravity \<mapsto> Num (num_or options FGravity (8 / 10)),
             FTicks \<mapsto> Num (num_or options FTicks 1200),
             FDecay \<mapsto> Num (num_or options FDecay (93 / 100)),
             FShapes \<mapsto> Shapes processedShapes,
             FOrigin \<mapsto> Origin (Some r1) (Some 0),
             FScalar \<mapsto> Num (num_or options FScalar (11 / 10)),
             FDrift \<mapsto> Num (r2 * 2 - 1)] ++ options) s2)"

text \<open>\<^verbatim>\<open>for (let i = 0; i < 10; i++)\<close>, by the number of passes left.\<close>

fun shoot_loop :: "nat \<Rightarrow> config \<Rightarrow> shape list \<Rightarrow> state \<Rightarrow> state" where
  "shoot_loop 0 options processedShapes s = s"
| "shoot_loop (Suc n) options processedShapes s =
     shoot_loop n options processedShapes (fall_burst options processedShapes s)"

section \<open>\<^verbatim>\<open>pride\<close>, \<^verbatim>\<open>reset\<close>, \<^verbatim>\<open>customCanvas\<close>\<close>

definition pride :: "config \<Rightarrow> state \<Rightarrow> state" where
  "pride options s =
     (let duration = num_or options FDuration 15000;
          end = clock s + duration;
          (h, s1) = requestAnimationFrame (PrideFrame end options) s
      in s1\<lparr>animationFrameId := Some h\<rparr>)"

definition reset :: "string \<Rightarrow> config \<Rightarrow> state \<Rightarrow> state" where
  "reset type options s =
     (let duration = num_or options FDuration 2000;
          s1 = (if animationFrameId s \<noteq> None
                then (cancelAnimationFrame (the (animationFrameId s)) s)\<lparr>animationFrameId := None\<rparr>
                else s)
      in if type = ''instant'' then
           (let s2 = (if truthy (timerId s1)
                      then (clearInterval (the (timerId s1)) s1)\<lparr>timerId := None\<rparr>
                      else s1)
            in emit ConfettiReset s2)
         else if type = ''smooth'' then
           (let stepTime = 50;
                steps = duration / stepTime
            in snd (setInterval (FadeTick steps 0 options) stepTime s1))
         else
           emit ConfettiReset
             (emit (Warn (''Unknown reset type: '' @ type @ ''. Defaulting to instant reset.'')) s1))"

definition customCanvas :: "nat option \<Rightarrow> state \<Rightarrow> state" where
  "customCanvas canvas s =
     (case canvas of
        Some c \<Rightarrow> s\<lparr>confettiInstance := Some c\<rparr>
      | None \<Rightarrow> s\<lparr>confettiInstance := None\<rparr>)"

section \<open>The colour-array variant of the burst path\<close>

definition launchConfetti_colors :: "string list option \<Rightarrow> config \<Rightarrow> state \<Rightarrow> state" where
  "launchConfetti_colors colors options s =
     (let checkedColors =
            (case colors of
               None \<Rightarrow> defaults s FColors
             | Some cs \<Rightarrow> if length cs \<le> 0 then defaults s FColors else Some (Colors cs))
      in emit (Confetti (the_surface s) ((defaults s)(FColors := checkedColors) ++ options)) s)"

definition launchConfettiWithDelay_colors :: "string list option \<Rightarrow> config \<Rightarrow> state \<Rightarrow> state" where
  "launchConfettiWithDelay_colors colors options s =
     snd (setTimeout (LaunchCb_colors colors options) (num_or options FDelay 0) s)"

definition cannon_colors :: "string list option \<Rightarrow> config \<Rightarrow> state \<Rightarrow> state" where
  "cannon_colors colors options s =
     launchConfettiWithDelay_colors colors (options ++ [FParticleCount \<mapsto> Num 100]) s"

section \<open>Running a callback\<close>

text \<open>
  \<^verbatim>\<open>methodFunction.call(this, options)\<close> in \<^verbatim>\<open>infinite\<close>. For \<^verbatim>\<open>reset\<close> the options
  object lands in the \<^verbatim>\<open>type\<close> parameter; left out, the default \<^verbatim>\<open>'smooth'\<close> applies.
\<close>

definition call_method :: "effect_name \<Rightarrow> config option \<Rightarrow> state \<Rightarrow> state" where
  "call_method m options s =
     (let opts = (case options of None \<Rightarrow> Map.empty | Some c \<Rightarrow> c)
      in case m of
           MCannon \<Rightarrow> cannon opts s
         | MRandomDirection \<Rightarrow> randomDirection opts s
         | MRealistic \<Rightarrow> realistic opts s
         | MFireworks \<Rightarrow> fireworks opts s
         | MStars \<Rightarrow> stars opts s
         | MSnow \<Rightarrow> snow opts s
         | MFall \<Rightarrow> fall opts s
         | MPride \<Rightarrow> pride opts s
         | MReset \<Rightarrow> (case options of
                         None \<Rightarrow> reset ''smooth'' Map.empty s
                       | Some c \<Rightarrow> reset ''[object Object]'' Map.empty s))"

definition snow_frame :: "rat \<Rightarrow> rat \<Rightarrow> config \<Rightarrow> state \<Rightarrow> state" where
  "snow_frame animationEnd skew options s =
     (let timeLeft = animationEnd - clock s
      in if timeLeft \<le> 0 \<or> animationFrameId s = None then s
         else
           (let ticks = max 200 (500 * (timeLeft / num_or options FDuration 5000));
                skew' = max (8 / 10) (skew - 1 / 1000);
                (r1, s1) = random s;
                (r2, s2) = random s1;
                (r3, s3) = random s2;
                (r4, s4) = random s3;
                (r5, s5) = random s4;
                s6 = launchConfetti
                       ([FParticleCount \<mapsto> Num 1,
                         FStartVelocity \<mapsto> Num 0,
                         FTicks \<mapsto> Num ticks,
                         FOrigin \<mapsto> Origin (Some r1) (Some (r2 * skew' - 2 / 10)),
                         FShapes \<mapsto> Shapes [Str ''circle''],
                         FGravity \<mapsto> Num (randomInRange r3 (4 / 10) (6 / 10)),
                         FScalar \<mapsto> Num (randomInRange r4 (4 / 10) 1),
                         FDrift \<mapsto> Num (randomInRange r5 (- (4 / 10)) (4 / 10)),
                         FColors \<mapsto> Colors [''#FCFCFC'']] ++ options) s5;
                (h, s7) = requestAnimationFrame (SnowFrame animationEnd skew' options) s6
            in s7\<lparr>animationFrameId := Some h\<rparr>))"

definition pride_frame :: "rat \<Rightarrow> config \<Rightarrow> state \<Rightarrow> state" where
  "pride_frame end options s =
     (let timeLeft = end - clock s
      in if timeLeft > 0 \<and> animationFrameId s \<noteq> None then
           (let s1 = launchConfettiWithDelay
                       ([FParticleCount \<mapsto> Num 2, FAngle \<mapsto> Num 60, FSpread \<mapsto> Num 55,
                         FOrigin \<mapsto> Origin (Some 0) (Some (1 / 2))] ++ options) s;
                s2 = launchConfettiWithDelay
                       ([FParticleCount \<mapsto> Num 2, FAngle \<mapsto> Num 120, FSpread \<mapsto> Num 55,
                         FOrigin \<mapsto> Origin (Some 1) (Some (1 / 2))] ++ options) s1;
                (h, s3) = requestAnimationFrame (PrideFrame end options) s2
            in s3\<lparr>animationFrameId := Some h\<rparr>)
         else s)"

text \<open>
  One tick of the fade interval of the smooth reset, after \<^verbatim>\<open>currentStep++\<close>; the
  object literal it passes to \<^verbatim>\<open>confetti\<close> comes first.
\<close>

definition fade_options :: "config \<Rightarrow> rat \<Rightarrow> nat \<Rightarrow> config" where
  "fade_options options steps currentStep =
     [FParticleCount \<mapsto> Num (num_or options FParticleCount 100),
      FStartVelocity \<mapsto> Num 0,
      FScalar \<mapsto> Num (1 - of_nat currentStep / steps),
      FDisableForReducedMotion \<mapsto> Bool True,
      FTicks \<mapsto> Num (num_or options FTicks 200),
      FGravity \<mapsto> Num (num_or options FGravity (1 / 2)),
      FColors \<mapsto> val_or options FColors (Colors [''rgba(255, 255, 255, 0.1)'']),
      FShapes \<mapsto> val_or options FShapes (Shapes [Str ''circle'', Str ''square''])]"

definition fade_tick :: "nat \<Rightarrow> rat \<Rightarrow> nat \<Rightarrow> config \<Rightarrow> state \<Rightarrow> state" where
  "fade_tick intervalId steps currentStep options s =
     (let s1 = emit (Confetti DefaultSurface (fade_options options steps currentStep)) s
      in if of_nat currentStep \<ge> steps then
           (let s2 = clearInterval intervalId s1;
                s3 = (if truthy (timerId s2)
                      then (clearInterval (the (timerId s2)) s2)\<lparr>timerId := None\<rparr>
                      else s2)
            in emit ConfettiReset s3)
         else s1)"

text \<open>
  The body of each closure, given the handle of the timer that runs it. The result holds
  the closure as it stands afterwards: only the fade tick changes a captured variable
  that its next run reads.
\<close>

fun exec :: "nat \<Rightarrow> callback \<Rightarrow> state \<Rightarrow> callback \<times> state" where
  "exec h (LaunchCb options) s = (LaunchCb options, launchConfetti options s)"
| "exec h (LaunchCb_colors colors options) s =
     (LaunchCb_colors colors options, launchConfetti_colors colors options s)"
| "exec h (InfiniteTick m end delay options) s =
     (InfiniteTick m end delay options,
      if clock s > end then stopInfinite s
      else snd (setTimeout (InfiniteCall m options) delay s))"
| "exec h (InfiniteCall m options) s = (InfiniteCall m options, call_method m options s)"
| "exec h (FireworksTick animationEnd options) s =
     (FireworksTick animationEnd options,
      let timeLeft = animationEnd - clock s
      in if timeLeft \<le> 0 then clearInterval h s
         else fireworks_fire options (50 * (timeLeft / num_or options FDuration 15000)) s)"
| "exec h (SnowStart options) s =
     (SnowStart options,
      let animationEnd = clock s + num_or options FDuration 5000;
          (f, s1) = requestAnimationFrame (SnowFrame animationEnd 1 options) s
      in s1\<lparr>animationFrameId := Some f\<rparr>)"
| "exec h (SnowFrame animationEnd skew options) s =
     (SnowFrame animationEnd skew options, snow_frame animationEnd skew options s)"
| "exec h (FallShoot options processedShapes) s =
     (FallShoot options processedShapes, shoot_loop 10 options processedShapes s)"
| "exec h (PrideFrame end options) s = (PrideFrame end options, pride_frame end options s)"
| "exec h (FadeTick steps currentStep options) s =
     (FadeTick steps (Suc currentStep) options,
      fade_tick h steps (Suc currentStep) options s)"

section \<open>The event loop\<close>

text \<open>
  The next task to run is the one due first; among tasks due at the same time, the one
  armed first. Timers and frame requests have separate handle spaces.
\<close>

fun earliest :: "task list \<Rightarrow> task option" where
  "earliest [] = None"
| "earliest (t # ts) =
     (case earliest ts of
        None \<Rightarrow> Some t
      | Some u \<Rightarrow> if due t \<le> due u then Some t else Some u)"

definition same_slot :: "task \<Rightarrow> task \<Rightarrow> bool" where
  "same_slot t u = (handle t = handle u \<and> (kind t = Frame) = (kind u = Frame))"

text \<open>
  Running a task moves the clock to its due time (a task never runs early; it runs late
  when the clock has passed its due time already). A timeout or a frame request is
  spent before its body runs. An interval stays armed while its body runs and, unless
  the body cleared it, is armed again one period after this run.
\<close>

definition fire :: "task \<Rightarrow> state \<Rightarrow> state" where
  "fire t s =
     (let s1 = s\<lparr>clock := max (clock s) (due t)\<rparr>
      in case kind t of
           Interval p \<Rightarrow>
             (let (c, s2) = exec (handle t) (cb t) s1
              in if (\<exists>u \<in> set (pending s2). same_slot t u)
                 then s2\<lparr>pending := filter (\<lambda>u. \<not> same_slot t u) (pending s2)
                                       @ [Task (handle t) (Interval p) (clock s2 + p) c]\<rparr>
                 else s2)
         | _ \<Rightarrow> snd (exec (handle t) (cb t)
                      (s1\<lparr>pending := filter (\<lambda>u. \<not> same_slot t u) (pending s1)\<rparr>)))"

definition step :: "state \<Rightarrow> state option" where
  "step s = (case earliest (pending s) of None \<Rightarrow> None | Some t \<Rightarrow> Some (fire t s))"

text \<open>At most \<open>n\<close> steps of the event loop; it stops early when nothing is pending.\<close>

fun run :: "nat \<Rightarrow> state \<Rightarrow> state" where
  "run 0 s = s"
| "run (Suc n) s = (case step s of None \<Rightarrow> s | Some s' \<Rightarrow> run n s')"

section \<open>Observing a run\<close>

fun burst_of :: "event \<Rightarrow> config list" where
  "burst_of (Confetti sf c) = [c]"
| "burst_of _ = []"

text \<open>The configurations handed to the rendering primitive, in order.\<close>

definition bursts :: "event list \<Rightarrow> config list" where
  "bursts es = concat (map burst_of es)"

definition particleCounts :: "event list \<Rightarrow> jsval option list" where
  "particleCounts es = map (\<lambda>c. c FParticleCount) (bursts es)"

fun warning_of :: "event \<Rightarrow> string list" where
  "warning_of (Warn w) = [w]"
| "warning_of _ = []"

definition warnings :: "event list \<Rightarrow> string list" where
  "warnings es = concat (map warning_of es)"

text \<open>The private fields of the class.\<close>

definition stored :: "state \<Rightarrow> config \<times> nat option \<times> nat option \<times> nat option" where
  "stored s = (defaults s, confettiInstance s, timerId s, animationFrameId s)"

text \<open>Concrete inputs: a call without options, a generator that always returns 0, a new
  instance at time 0 with 16 ms between frames, an override of the particle count.\<close>

definition no_options :: config where
  "no_options = Map.empty"

definition no_random :: "nat \<Rightarrow> rat" where
  "no_random i = 0"

definition fresh_state :: state where
  "fresh_state = new_Confetti no_options 0 no_random 16"

definition count_7 :: config where
  "count_7 = [FParticleCount \<mapsto> Num 7]"

text \<open>The particle counts of the delayed bursts waiting in a list of tasks.\<close>

fun launch_config :: "callback \<Rightarrow> config list" where
  "launch_config (LaunchCb c) = [c]"
| "launch_config _ = []"

definition queued_counts :: "task list \<Rightarrow> jsval option list" where
  "queued_counts ts = map (\<lambda>c. c FParticleCount) (concat (map (\<lambda>t. launch_config (cb t)) ts))"











section \<open>Runs of the class\<close>

text \<open>A call of a public method, with its arguments.\<close>

datatype call =
    Cannon config | RandomDirection config | Realistic config | Fireworks config
  | Stars config | Snow config | Fall config | Pride config | Reset string config
  | Custom config | Infinite effect_name rat rat "config option" | CustomCanvas "nat option"

fun perform :: "call \<Rightarrow> state \<Rightarrow> state" where
  "perform (Cannon c) s = cannon c s"
| "perform (RandomDirection c) s = randomDirection c s"
| "perform (Realistic c) s = realistic c s"
| "perform (Fireworks c) s = fireworks c s"
| "perform (Stars c) s = stars c s"
| "perform (Snow c) s = snow c s"
| "perform (Fall c) s = fall c s"
| "perform (Pride c) s = pride c s"
| "perform (Reset type c) s = reset type c s"
| "perform (Custom c) s = custom c s"
| "perform (Infinite m i d oc) s = infinite m i d oc s"
| "perform (CustomCanvas cv) s = customCanvas cv s"

text \<open>The options objects a call passes, and whether it starts a \<^verbatim>\<open>fireworks\<close> loop.\<close>

fun call_options :: "call \<Rightarrow> config list" where
  "call_options (Cannon c) = [c]"
| "call_options (RandomDirection c) = [c]"
| "call_options (Realistic c) = [c]"
| "call_options (Fireworks c) = [c]"
| "call_options (Stars c) = [c]"
| "call_options (Snow c) = [c]"
| "call_options (Fall c) = [c]"
| "call_options (Pride c) = [c]"
| "call_options (Reset type c) = [c]"
| "call_options (Custom c) = [c]"
| "call_options (Infinite m i d oc) = (case oc of None \<Rightarrow> [] | Some c \<Rightarrow> [c])"
| "call_options (CustomCanvas cv) = []"

fun starts_fireworks :: "call \<Rightarrow> bool" where
  "starts_fireworks (Fireworks c) = True"
| "starts_fireworks (Infinite m i d oc) = (m = MFireworks)"
| "starts_fireworks _ = False"

text \<open>
  The states a program can bring an instance to: it constructs the instance, calls public
  methods, lets the event loop run a task, or lets time pass. \<open>A\<close> restricts the
  options objects the program passes (the constructor's included), \<open>fw\<close> says whether
  it may start \<^verbatim>\<open>fireworks\<close>. \<^verbatim>\<open>Math.random()\<close> returns values in \<open>[0, 1)\<close>.
\<close>

inductive reach :: "(config \<Rightarrow> bool) \<Rightarrow> bool \<Rightarrow> state \<Rightarrow> bool" for A :: "config \<Rightarrow> bool" and fw :: bool where
  start: "A config \<Longrightarrow> (\<And>i. 0 \<le> rnd i \<and> rnd i < 1) \<Longrightarrow> reach A fw (new_Confetti config now rnd fp)"
| call: "reach A fw s \<Longrightarrow> list_all A (call_options a) \<Longrightarrow> (starts_fireworks a \<Longrightarrow> fw)
         \<Longrightarrow> reach A fw (perform a s)"
| step: "reach A fw s \<Longrightarrow> step s = Some s' \<Longrightarrow> reach A fw s'"
| wait: "reach A fw s \<Longrightarrow> 0 \<le> d \<Longrightarrow> reach A fw (s\<lparr>clock := clock s + d\<rparr>)"

text \<open>
  Handles in use lie below the next free one, and the tracked interval handle never
  names a one-shot timer.
\<close>

definition handles_ok :: "state \<Rightarrow> bool" where
  "handles_ok s \<longleftrightarrow>
     (\<forall>t \<in> set (pending s). handle t < nextHandle s)
     \<and> (\<forall>h. timerId s = Some h \<longrightarrow>
            h < nextHandle s \<and> (\<forall>t \<in> set (pending s). handle t = h \<longrightarrow> kind t \<noteq> Timeout))"

text \<open>
  A configuration whose particle count is a number satisfying \<open>P\<close>; an options object
  that either leaves the particle count out or gives one satisfying \<open>P\<close>.
\<close>

definition count_ok :: "(rat \<Rightarrow> bool) \<Rightarrow> config \<Rightarrow> bool" where
  "count_ok P c = (case c FParticleCount of Some (Num n) \<Rightarrow> P n | _ \<Rightarrow> False)"

definition override_ok :: "(rat \<Rightarrow> bool) \<Rightarrow> config \<Rightarrow> bool" where
  "override_ok P c = (c FParticleCount = None \<or> count_ok P c)"

text \<open>
  What the invariant below needs of \<open>P\<close>: it holds of the non-negative integers, and
  of every positive number when \<^verbatim>\<open>fireworks\<close> may run.
\<close>

definition good :: "(rat \<Rightarrow> bool) \<Rightarrow> bool \<Rightarrow> bool" where
  "good P fw = ((\<forall>k::int. 0 \<le> k \<longrightarrow> P (of_int k)) \<and> (fw \<longrightarrow> (\<forall>x. 0 < x \<longrightarrow> P x)))"

text \<open>
  What a pending closure must satisfy so that the bursts it leads to have particle counts
  satisfying \<open>P\<close>, given the defaults \<open>D\<close> and the time \<open>now\<close>. For the fireworks tick:
  the time left never exceeds the duration.
\<close>

fun cb_ok :: "(rat \<Rightarrow> bool) \<Rightarrow> bool \<Rightarrow> config \<Rightarrow> rat \<Rightarrow> callback \<Rightarrow> bool" where
  "cb_ok P fw D now (LaunchCb c) = count_ok P (D ++ c)"
| "cb_ok P fw D now (LaunchCb_colors cs c) = count_ok P (D ++ c)"
| "cb_ok P fw D now (InfiniteTick m e d oc) =
     ((case oc of None \<Rightarrow> True | Some c \<Rightarrow> override_ok P c) \<and> (m = MFireworks \<longrightarrow> fw))"
| "cb_ok P fw D now (InfiniteCall m oc) =
     ((case oc of None \<Rightarrow> True | Some c \<Rightarrow> override_ok P c) \<and> (m = MFireworks \<longrightarrow> fw))"
| "cb_ok P fw D now (FireworksTick e c) =
     (fw \<and> override_ok P c \<and> e - now \<le> num_or c FDuration 15000)"
| "cb_ok P fw D now (SnowStart c) = override_ok P c"
| "cb_ok P fw D now (SnowFrame e k c) = override_ok P c"
| "cb_ok P fw D now (FallShoot c ps) = override_ok P c"
| "cb_ok P fw D now (PrideFrame e c) = override_ok P c"
| "cb_ok P fw D now (FadeTick st cs c) = override_ok P c"

definition counts_inv :: "(rat \<Rightarrow> bool) \<Rightarrow> bool \<Rightarrow> state \<Rightarrow> bool" where
  "counts_inv P fw s \<longleftrightarrow>
     (\<forall>i. 0 \<le> rand s i)
     \<and> count_ok P (defaults s)
     \<and> (\<forall>t \<in> set (pending s). cb_ok P fw (defaults s) (clock s) (cb t))
     \<and> (\<forall>c \<in> set (bursts (trace s)). count_ok P c)"

text \<open>What no method and no callback changes.\<close>

definition env_of :: "state \<Rightarrow> rat \<times> config \<times> (nat \<Rightarrow> rat)" where
  "env_of s = (clock s, defaults s, rand s)"



definition any_options :: "config \<Rightarrow> bool" where
  "any_options c = True"


section \<open>Rounding of JavaScript numbers\<close>

text \<open>
  JavaScript numbers are IEEE 754 binary64 values, and the embedding computes with exact
  rationals instead. Where the source floors a product, rounding could change the
  integer; the two definitions below state the rounding, so that the counts of
  \<^verbatim>\<open>realistic\<close> can be checked against it. \<open>binary64 e x\<close> is the binary64 value nearest
  to \<open>x\<close> (ties to the even significand), where \<open>e\<close> is the scaling that brings \<open>x\<close>
  into \<open>[2 ^ 52, 2 ^ 53)\<close>.
\<close>

definition round_half_even :: "rat \<Rightarrow> int" where
  "round_half_even x =
     (let f = \<lfloor>x\<rfloor>; r = x - of_int f
      in if r < 1 / 2 then f else if 1 / 2 < r then f + 1 else if even f then f else f + 1)"

definition binary64 :: "nat \<Rightarrow> rat \<Rightarrow> rat option" where
  "binary64 e x =
     (if 2 ^ 52 \<le> x * 2 ^ e \<and> x * 2 ^ e < 2 ^ 53
      then Some (of_int (round_half_even (x * 2 ^ e)) / 2 ^ e) else None)"

section \<open>Properties\<close>

lemmas env_defs = emit_def ms_def arm_def setTimeout_def setInterval_def
  requestAnimationFrame_def clearInterval_def cancelAnimationFrame_def random_def truthy_def

lemmas fresh_defs = fresh_state_def new_Confetti_def no_options_def no_random_def

subsection \<open>Methods that leave the stored fields alone\<close>

lemma stored_launchConfettiWithDelay [simp]: "stored (launchConfettiWithDelay c s) = stored s"
  by (simp add: stored_def launchConfettiWithDelay_def env_defs)

lemma stored_random [simp]: "stored (snd (random s)) = stored s"
  by (simp add: stored_def random_def)

lemma stored_emit [simp]: "stored (emit e s) = stored s"
  by (simp add: stored_def emit_def)

lemma stored_shoot_loop [simp]: "stored (shoot_loop n c p s) = stored s"
proof (induction n arbitrary: s)
  case 0
  show ?case by simp
next
  case (Suc n)
  have "stored (fall_burst c p s) = stored s"
    by (simp add: fall_burst_def random_def split: prod.splits) (simp add: stored_def)
  with Suc show ?case by simp
qed

lemma stored_processShapes [simp]: "stored (snd (processShapes c shs s)) = stored s"
proof (induction shs arbitrary: s)
  case Nil
  show ?case by simp
next
  case (Cons sh shs)
  have w: "stored (foldl (\<lambda>st w. emit (Warn w) st) s ws) = stored s" for ws
    by (induction ws arbitrary: s) simp_all
  show ?case
    using Cons [of "foldl (\<lambda>st w. emit (Warn w) st) s (snd (processShape c sh))"]
    by (simp add: w split_beta)
qed

text \<open>
  Claim C10. \<^verbatim>\<open>cannon\<close>, \<^verbatim>\<open>randomDirection\<close>, \<^verbatim>\<open>realistic\<close>, \<^verbatim>\<open>stars\<close> and \<^verbatim>\<open>custom\<close>
  leave \<^verbatim>\<open>defaults\<close>, \<^verbatim>\<open>confettiInstance\<close>, \<^verbatim>\<open>timerId\<close> and \<^verbatim>\<open>animationFrameId\<close> as
  they were, and so do the delayed bursts they schedule when those fire. Of the public
  methods outside the list \<^verbatim>\<open>fireworks\<close>, \<^verbatim>\<open>snow\<close>, \<^verbatim>\<open>pride\<close>, \<^verbatim>\<open>infinite\<close>,
  \<^verbatim>\<open>reset\<close>, \<^verbatim>\<open>customCanvas\<close>, the remaining one, \<^verbatim>\<open>fall\<close>, with its delayed
  \<^verbatim>\<open>shoot\<close>, leaves them as they were too.
\<close>

theorem single_burst_methods_keep_stored_fields:
  "stored (cannon c s) = stored s
   \<and> stored (randomDirection c s) = stored s
   \<and> stored (realistic c s) = stored s
   \<and> stored (stars c s) = stored s
   \<and> stored (custom c s) = stored s
   \<and> stored (fall c s) = stored s
   \<and> stored (snd (exec h (LaunchCb c) s)) = stored s
   \<and> stored (snd (exec h (FallShoot c p) s)) = stored s"
proof -
  have "stored (fall c s) = stored s"
  proof -
    have "stored (snd (setTimeout cb d s')) = stored s'" for cb d s'
      by (simp add: stored_def env_defs)
    then show ?thesis
      by (simp add: fall_def split_beta Let_def)
  qed
  moreover have "stored (randomDirection c s) = stored s"
    by (simp add: randomDirection_def random_def split: prod.splits) (simp add: stored_def)
  ultimately show ?thesis
    by (simp add: cannon_def realistic_def realistic_fire_def stars_def custom_def
        launchConfetti_def)
qed

theorem single_burst_methods_keep_stored_fields_witness:
  "stored (cannon count_7 fresh_state) = stored fresh_state
   \<and> stored (realistic count_7 fresh_state) = stored fresh_state
   \<and> stored (snd (exec 1 (LaunchCb count_7) fresh_state)) = stored fresh_state"
  using single_burst_methods_keep_stored_fields [of count_7 fresh_state 1 "[]"] by simp

subsection \<open>Layered configuration\<close>

text \<open>
  Object spread, field by field: the last object that has the field decides. The
  options-object variant of \<^verbatim>\<open>cannon\<close> spreads the call-site options last, and its
  burst carries the override; the colour-array variant spreads them first, and every
  burst it schedules carries the particle count 100.
\<close>

lemma spread_law:
  "(d ++ e ++ c) f
     = (case c f of Some v \<Rightarrow> Some v
        | None \<Rightarrow> (case e f of Some v \<Rightarrow> Some v | None \<Rightarrow> d f))"
  by (simp add: map_add_def split: option.splits)

lemma cannon_schedules_merged_options:
  "pending (cannon c s)
     = pending s @ [Task (nextHandle s) Timeout
                      (clock s + ms (num_or ([FParticleCount \<mapsto> Num 100] ++ c) FDelay 0))
                      (LaunchCb ([FParticleCount \<mapsto> Num 100] ++ c))]"
  by (simp add: cannon_def launchConfettiWithDelay_def setTimeout_def arm_def)

lemma launch_dispatches_merged_options:
  "trace (snd (exec h (LaunchCb c) s)) = trace s @ [Confetti (the_surface s) (defaults s ++ c)]"
  by (simp add: launchConfetti_def emit_def)

lemma cannon_honours_given_particleCount:
  "particleCounts (trace (run 1 (cannon count_7 fresh_state))) = [Some (Num 7)]"
  by (simp add: cannon_def launchConfettiWithDelay_def fresh_defs count_7_def
      emit_def ms_def arm_def setTimeout_def num_or_def step_def fire_def same_slot_def
      launchConfetti_def the_surface_def particleCounts_def bursts_def)

lemma cannon_colors_always_100:
  "pending (cannon_colors cs c s)
     = pending s @ [Task (nextHandle s) Timeout
          (clock s + ms (num_or (c ++ [FParticleCount \<mapsto> Num 100]) FDelay 0))
          (LaunchCb_colors cs (c ++ [FParticleCount \<mapsto> Num 100]))]"
  "particleCounts (trace (snd (exec h (LaunchCb_colors cs (c ++ [FParticleCount \<mapsto> Num 100])) s)))
     = particleCounts (trace s) @ [Some (Num 100)]"
  by (simp_all add: cannon_colors_def launchConfettiWithDelay_colors_def setTimeout_def arm_def
      launchConfetti_colors_def emit_def particleCounts_def bursts_def Let_def)

text \<open>
  Claim C1. In the colour-array variant, \<^verbatim>\<open>cannon(undefined, {particleCount: 7})\<close> on a
  new instance dispatches one burst, and its particle count is the effect default 100,
  not the 7 of the call-site override: that variant spreads the options before the
  effect default.
\<close>

theorem cannon_colors_overrides_given_particleCount:
  "particleCounts (trace (run 1 (cannon_colors None count_7 fresh_state))) = [Some (Num 100)]"
  by (simp add: cannon_colors_def launchConfettiWithDelay_colors_def fresh_defs
      count_7_def env_defs num_or_def step_def fire_def same_slot_def
      launchConfetti_colors_def the_surface_def particleCounts_def bursts_def)

subsection \<open>The event loop\<close>

lemmas loop_defs = step_def fire_def same_slot_def

lemma earliest_None [simp]: "earliest ts = None \<longleftrightarrow> ts = []"
  by (cases ts) (auto split: option.splits)

lemma run_idle: "pending s = [] \<Longrightarrow> run n s = s"
  by (cases n) (simp_all add: step_def)

lemma run_add: "run (m + n) s = run n (run m s)"
proof (induction m arbitrary: s)
  case 0
  show ?case by simp
next
  case (Suc m)
  show ?case
  proof (cases "step s")
    case None
    then have "pending s = []"
      by (simp add: step_def split: option.splits)
    with None show ?thesis by (simp add: run_idle)
  next
    case (Some s')
    with Suc show ?thesis by simp
  qed
qed

subsection \<open>\<^verbatim>\<open>realistic\<close>\<close>

text \<open>
  Claim C2. \<^verbatim>\<open>realistic()\<close> without overrides, called while nothing else is pending,
  schedules five delayed bursts whose particle counts are 50, 40, 70, 20, 20 in call
  order; the event loop dispatches exactly these five, in that order and with no time
  passing, and then nothing more.
\<close>

theorem realistic_five_bursts:
  assumes "pending s = []"
  shows "queued_counts (pending (realistic no_options s))
           = [Some (Num 50), Some (Num 40), Some (Num 70), Some (Num 20), Some (Num 20)]
       \<and> particleCounts (trace (run 5 (realistic no_options s)))
           = particleCounts (trace s)
               @ [Some (Num 50), Some (Num 40), Some (Num 70), Some (Num 20), Some (Num 20)]
       \<and> clock (run 5 (realistic no_options s)) = clock s
       \<and> run (5 + n) (realistic no_options s) = run 5 (realistic no_options s)"
proof -
  let ?r = "realistic no_options s"
  have q: "queued_counts (pending ?r)
           = [Some (Num 50), Some (Num 40), Some (Num 70), Some (Num 20), Some (Num 20)]"
    using assms
    by (simp add: realistic_def realistic_fire_def launchConfettiWithDelay_def no_options_def
        env_defs num_or_def queued_counts_def)
  have r: "particleCounts (trace (run 5 ?r))
           = particleCounts (trace s)
               @ [Some (Num 50), Some (Num 40), Some (Num 70), Some (Num 20), Some (Num 20)]
         \<and> clock (run 5 ?r) = clock s \<and> pending (run 5 ?r) = []"
    using assms
    by (simp add: realistic_def realistic_fire_def launchConfettiWithDelay_def no_options_def
        env_defs num_or_def eval_nat_numeral loop_defs launchConfetti_def
        particleCounts_def bursts_def)
  then have "run (5 + n) ?r = run 5 ?r"
    by (simp add: run_add run_idle)
  with q r show ?thesis by simp
qed

theorem realistic_five_bursts_witness:
  "pending fresh_state = []
   \<and> particleCounts (trace (run 5 (realistic no_options fresh_state)))
       = [Some (Num 50), Some (Num 40), Some (Num 70), Some (Num 20), Some (Num 20)]"
proof -
  have p: "pending fresh_state = []"
    by (simp add: fresh_defs)
  have t: "particleCounts (trace fresh_state) = []"
    by (simp add: fresh_defs particleCounts_def bursts_def)
  show ?thesis
    using p t realistic_five_bursts [OF p, of 0] by simp
qed

text \<open>
  The same counts with binary64 rounding: each ratio literal is rounded, then its product
  with 200 is rounded, and the product comes out as the integer itself, so that
  \<^verbatim>\<open>Math.floor\<close> returns 50, 40, 70 and 20 as in the exact computation.
\<close>

lemma round_nearest:
  assumes "of_int n - 1 / 2 < x" and "x < of_int n + 1 / 2"
  shows "round_half_even x = n"
proof (cases "of_int n \<le> x")
  case True
  with assms have "\<lfloor>x\<rfloor> = n"
    by (simp add: floor_eq_iff)
  with assms show ?thesis
    by (simp add: round_half_even_def Let_def)
next
  case False
  with assms have "\<lfloor>x\<rfloor> = n - 1"
    by (simp add: floor_eq_iff)
  with assms False show ?thesis
    by (simp add: round_half_even_def Let_def)
qed

lemma binary64_nearest:
  assumes "2 ^ 52 \<le> x * 2 ^ e" and "x * 2 ^ e < 2 ^ 53"
    and "of_int n - 1 / 2 < x * 2 ^ e" and "x * 2 ^ e < of_int n + 1 / 2"
  shows "binary64 e x = Some (of_int n / 2 ^ e)"
  using assms round_nearest [of n "x * 2 ^ e"] by (simp add: binary64_def)

lemma realistic_ratios_binary64:
  "binary64 54 (25 / 100) = Some (4503599627370496 / 2 ^ 54)"
  "binary64 55 (2 / 10) = Some (7205759403792794 / 2 ^ 55)"
  "binary64 54 (35 / 100) = Some (6305039478318694 / 2 ^ 54)"
  "binary64 56 (1 / 10) = Some (7205759403792794 / 2 ^ 56)"
  using binary64_nearest [of "25 / 100" 54 4503599627370496]
    binary64_nearest [of "2 / 10" 55 7205759403792794]
    binary64_nearest [of "35 / 100" 54 6305039478318694]
    binary64_nearest [of "1 / 10" 56 7205759403792794]
  by simp_all

lemma realistic_products_binary64:
  "binary64 47 (200 * (4503599627370496 / 2 ^ 54)) = Some 50"
  "binary64 47 (200 * (7205759403792794 / 2 ^ 55)) = Some 40"
  "binary64 46 (200 * (6305039478318694 / 2 ^ 54)) = Some 70"
  "binary64 48 (200 * (7205759403792794 / 2 ^ 56)) = Some 20"
  using binary64_nearest [of "200 * (4503599627370496 / 2 ^ 54)" 47 "50 * 2 ^ 47"]
    binary64_nearest [of "200 * (7205759403792794 / 2 ^ 55)" 47 "40 * 2 ^ 47"]
    binary64_nearest [of "200 * (6305039478318694 / 2 ^ 54)" 46 "70 * 2 ^ 46"]
    binary64_nearest [of "200 * (7205759403792794 / 2 ^ 56)" 48 "20 * 2 ^ 48"]
  by simp_all

subsection \<open>\<^verbatim>\<open>reset\<close> with an unknown mode\<close>

lemma reset_unknown_mode:
  assumes "type \<noteq> ''instant''" and "type \<noteq> ''smooth''"
  shows "timerId (reset type c s) = timerId s"
    and "filter (\<lambda>t. kind t \<noteq> Frame) (pending (reset type c s))
           = filter (\<lambda>t. kind t \<noteq> Frame) (pending s)"
    and "warnings (trace (reset type c s))
           = warnings (trace s) @ [''Unknown reset type: '' @ type @ ''. Defaulting to instant reset.'']"
  using assms
  by (auto simp add: reset_def env_defs Let_def warnings_def intro: filter_cong)

text \<open>
  Claim C6. On a new instance with \<^verbatim>\<open>fireworks()\<close> running, \<^verbatim>\<open>reset('gentle')\<close> logs
  the warning and calls the global clear, but the fireworks interval (handle 1) stays
  armed and tracked, and its next tick dispatches two more bursts; \<^verbatim>\<open>reset('instant')\<close>
  in the same state clears that interval and empties the tracked handle.
\<close>

theorem reset_unknown_mode_keeps_interval:
  "map handle (pending (reset ''gentle'' no_options (fireworks no_options fresh_state))) = [1]
   \<and> timerId (reset ''gentle'' no_options (fireworks no_options fresh_state)) = Some 1
   \<and> trace (reset ''gentle'' no_options (fireworks no_options fresh_state))
        = [Warn ''Unknown reset type: gentle. Defaulting to instant reset.'', ConfettiReset]
   \<and> particleCounts (trace (run 3 (reset ''gentle'' no_options (fireworks no_options fresh_state))))
        = [Some (Num (295 / 6)), Some (Num (295 / 6))]
   \<and> pending (reset ''instant'' no_options (fireworks no_options fresh_state)) = []
   \<and> timerId (reset ''instant'' no_options (fireworks no_options fresh_state)) = None
   \<and> trace (reset ''instant'' no_options (fireworks no_options fresh_state))
        = [ClearInterval 1, ConfettiReset]"
  by (simp add: reset_def fireworks_def fresh_defs env_defs num_or_def
        eval_nat_numeral loop_defs fireworks_fire_def launchConfettiWithDelay_def
        launchConfetti_def particleCounts_def bursts_def randomInRange_def the_surface_def Let_def)

subsection \<open>Starting a loop while another one runs\<close>




subsection \<open>Shapes given to \<^verbatim>\<open>fall\<close>\<close>






subsection \<open>The smooth reset\<close>












text \<open>
  One tick of the fade interval of \<^verbatim>\<open>reset('smooth', {duration: 2000})\<close>, in any state
  and whatever else is pending: before its 40th run it dispatches one burst and is armed
  again 50 ms later with the step counter advanced; its 40th run dispatches the last
  burst, clears the fade interval and the tracked interval, empties the tracked handle
  and calls the global clear.
\<close>

lemma fade_fire_before_last:
  assumes "t = Task h (Interval 50) d (FadeTick 40 k c)" and "t \<in> set (pending s)" and "Suc k < 40"
  shows "fire t s
           = s\<lparr>clock := max (clock s) d,
               pending := filter (\<lambda>u. \<not> same_slot t u) (pending s)
                            @ [Task h (Interval 50) (max (clock s) d + 50) (FadeTick 40 (Suc k) c)],
               trace := trace s @ [Confetti DefaultSurface (fade_options c 40 (Suc k))]\<rparr>"
proof -
  have "(of_nat k :: rat) < 39"
    using assms(3) by simp
  moreover have "\<exists>u \<in> set (pending s). same_slot t u"
    using assms(2) by (auto simp add: same_slot_def)
  ultimately show ?thesis
    using assms(1)
    by (simp add: fire_def fade_tick_def emit_def Let_def)
qed

lemma fade_fire_last:
  assumes "t = Task h (Interval 50) d (FadeTick 40 39 c)" and "timerId s \<noteq> Some 0"
  shows "timerId (fire t s) = None"
    and "\<not> (\<exists>u \<in> set (pending (fire t s)). same_slot t u)"
    and "\<forall>u \<in> set (pending (fire t s)). kind u \<noteq> Frame \<longrightarrow> Some (handle u) \<noteq> timerId s"
    and "trace (fire t s)
           = trace s @ [Confetti DefaultSurface (fade_options c 40 40), ClearInterval h]
               @ (case timerId s of None \<Rightarrow> [] | Some i \<Rightarrow> [ClearInterval i]) @ [ConfettiReset]"
  using assms
  by (cases "timerId s";
      auto simp add: fire_def fade_tick_def env_defs Let_def same_slot_def)+



subsection \<open>\<^verbatim>\<open>infinite\<close>\<close>














subsection \<open>Handles of pending tasks\<close>

lemma handles_ok_launchConfettiWithDelay: "handles_ok s \<Longrightarrow> handles_ok (launchConfettiWithDelay c s)"
  by (auto simp add: handles_ok_def launchConfettiWithDelay_def env_defs)

lemma handles_ok_random: "handles_ok s \<Longrightarrow> handles_ok (snd (random s))"
  by (auto simp add: handles_ok_def env_defs)

lemma handles_ok_emit: "handles_ok s \<Longrightarrow> handles_ok (emit e s)"
  by (auto simp add: handles_ok_def env_defs)

lemma handles_ok_clearInterval: "handles_ok s \<Longrightarrow> handles_ok (clearInterval h s)"
  by (auto simp add: handles_ok_def env_defs)

lemma handles_ok_cancelAnimationFrame: "handles_ok s \<Longrightarrow> handles_ok (cancelAnimationFrame h s)"
  by (auto simp add: handles_ok_def env_defs)

lemma handles_ok_untrack: "handles_ok s \<Longrightarrow> handles_ok (s\<lparr>timerId := None\<rparr>)"
  by (auto simp add: handles_ok_def)

lemma handles_ok_frame_id: "handles_ok s \<Longrightarrow> handles_ok (s\<lparr>animationFrameId := x\<rparr>)"
  by (auto simp add: handles_ok_def)

lemma handles_ok_setTimeout: "handles_ok s \<Longrightarrow> handles_ok (snd (setTimeout c d s))"
  by (auto simp add: handles_ok_def env_defs)

lemma handles_ok_requestAnimationFrame: "handles_ok s \<Longrightarrow> handles_ok (snd (requestAnimationFrame c s))"
  by (auto simp add: handles_ok_def env_defs)

lemma handles_ok_setInterval_untracked: "handles_ok s \<Longrightarrow> handles_ok (snd (setInterval c d s))"
  by (auto simp add: handles_ok_def env_defs)

lemma handles_ok_setInterval_tracked:
  "handles_ok s \<Longrightarrow> handles_ok ((snd (setInterval c d s))\<lparr>timerId := Some (fst (setInterval c d s))\<rparr>)"
  by (auto simp add: handles_ok_def env_defs)

lemmas handles_ok_intros = handles_ok_launchConfettiWithDelay handles_ok_random handles_ok_emit handles_ok_clearInterval
  handles_ok_cancelAnimationFrame handles_ok_untrack handles_ok_frame_id handles_ok_setTimeout handles_ok_requestAnimationFrame
  handles_ok_setInterval_untracked handles_ok_setInterval_tracked

lemma handles_ok_shoot_loop: "handles_ok s \<Longrightarrow> handles_ok (shoot_loop n c p s)"
  by (induction n arbitrary: s) (simp_all add: fall_burst_def split_beta handles_ok_intros)

lemma handles_ok_warn_fold: "handles_ok s \<Longrightarrow> handles_ok (foldl (\<lambda>st w. emit (Warn w) st) s ws)"
  by (induction ws arbitrary: s) (simp_all add: handles_ok_intros)

lemma handles_ok_processShapes: "handles_ok s \<Longrightarrow> handles_ok (snd (processShapes c shs s))"
  by (induction shs arbitrary: s) (simp_all add: split_beta handles_ok_warn_fold)

lemma handles_ok_reset: "handles_ok s \<Longrightarrow> handles_ok (reset type c s)"
  by (simp add: reset_def Let_def handles_ok_intros)

lemma handles_ok_perform: "handles_ok s \<Longrightarrow> handles_ok (perform a s)"
  by (cases a)
     (simp_all add: cannon_def randomDirection_def realistic_def realistic_fire_def fireworks_def
        stars_def snow_def fall_def pride_def custom_def infinite_def customCanvas_def
        split_beta Let_def handles_ok_intros handles_ok_processShapes handles_ok_reset,
      auto simp add: handles_ok_def env_defs split: option.splits)

lemma handles_ok_call_method: "handles_ok s \<Longrightarrow> handles_ok (call_method m oc s)"
  using handles_ok_perform [of s "Cannon c" for c] handles_ok_perform [of s "RandomDirection c" for c]
    handles_ok_perform [of s "Realistic c" for c] handles_ok_perform [of s "Fireworks c" for c]
    handles_ok_perform [of s "Stars c" for c] handles_ok_perform [of s "Snow c" for c]
    handles_ok_perform [of s "Fall c" for c] handles_ok_perform [of s "Pride c" for c]
    handles_ok_perform [of s "Reset t c" for t c]
  by (cases m) (simp_all add: call_method_def split: option.splits)

lemma handles_ok_exec: "handles_ok s \<Longrightarrow> handles_ok (snd (exec h c s))"
proof (cases c)
  case (FireworksTick e opts)
  assume "handles_ok s"
  then show ?thesis
    by (simp add: FireworksTick fireworks_fire_def split_beta Let_def handles_ok_intros)
next
  case (FadeTick st cs opts)
  assume "handles_ok s"
  then show ?thesis
    by (simp add: FadeTick fade_tick_def split_beta Let_def handles_ok_intros)
qed (simp_all add: launchConfetti_def launchConfetti_colors_def stopInfinite_def snow_frame_def
      pride_frame_def split_beta Let_def handles_ok_intros handles_ok_call_method handles_ok_shoot_loop)

lemma handles_ok_clock: "handles_ok s \<Longrightarrow> handles_ok (s\<lparr>clock := x\<rparr>)"
  by (auto simp add: handles_ok_def)

lemma handles_ok_filter: "handles_ok s \<Longrightarrow> handles_ok (s\<lparr>pending := filter Q (pending s)\<rparr>)"
  by (auto simp add: handles_ok_def)

lemma handles_ok_rearm:
  assumes "handles_ok s" and "\<exists>u \<in> set (pending s). same_slot t u" and "kind t = Interval p"
  shows "handles_ok (s\<lparr>pending := filter (\<lambda>u. \<not> same_slot t u) (pending s)
                               @ [Task (handle t) (Interval p) d c]\<rparr>)"
  using assms by (auto simp add: handles_ok_def same_slot_def)

lemma handles_ok_fire: "handles_ok s \<Longrightarrow> handles_ok (fire t s)"
proof (cases "kind t")
  case (Interval p)
  assume "handles_ok s"
  then have "handles_ok (snd (exec (handle t) (cb t) (s\<lparr>clock := max (clock s) (due t)\<rparr>)))"
    by (intro handles_ok_exec handles_ok_clock)
  then show ?thesis
    using handles_ok_rearm [OF _ _ Interval]
    by (simp add: fire_def Interval split_beta Let_def)
next
  case Timeout
  assume "handles_ok s"
  then have "handles_ok (s\<lparr>clock := max (clock s) (due t),
                          pending := filter (\<lambda>u. \<not> same_slot t u) (pending s)\<rparr>)"
    by (auto simp add: handles_ok_def)
  then show ?thesis
    by (simp add: fire_def Timeout Let_def handles_ok_exec)
next
  case Frame
  assume "handles_ok s"
  then have "handles_ok (s\<lparr>clock := max (clock s) (due t),
                          pending := filter (\<lambda>u. \<not> same_slot t u) (pending s)\<rparr>)"
    by (auto simp add: handles_ok_def)
  then show ?thesis
    by (simp add: fire_def Frame Let_def handles_ok_exec)
qed

lemma handles_ok_step: "handles_ok s \<Longrightarrow> step s = Some s' \<Longrightarrow> handles_ok s'"
  by (auto simp add: step_def handles_ok_fire split: option.splits)

lemma reach_wf: "reach A fw s \<Longrightarrow> handles_ok s"
proof (induction rule: reach.induct)
  case (start config rnd now fp)
  show ?case by (simp add: handles_ok_def new_Confetti_def)
next
  case (call s a)
  then show ?case by (simp add: handles_ok_perform)
next
  case (step s s')
  then show ?case by (simp add: handles_ok_step)
next
  case (wait s d)
  then show ?case by (simp add: handles_ok_clock)
qed

subsection \<open>Particle counts of dispatched bursts\<close>

lemma good_numeral [simp]: "good P fw \<Longrightarrow> P (numeral n)"
  using of_int_numeral [of n, where ?'a = rat] by (metis good_def zero_le_numeral)

lemma good_one [simp]: "good P fw \<Longrightarrow> P 1"
  using of_int_1 [where ?'a = rat] by (metis good_def zero_le_one)


lemma good_pos: "good P True \<Longrightarrow> 0 < x \<Longrightarrow> P x"
  by (simp add: good_def)


lemma count_ok_upd [simp]: "count_ok P (c(FParticleCount \<mapsto> Num n)) = P n"
  by (simp add: count_ok_def)

lemma count_ok_upd_other [simp]: "f \<noteq> FParticleCount \<Longrightarrow> count_ok P (c(f := v)) = count_ok P c"
  by (simp add: count_ok_def)

lemma bursts_append [simp]: "bursts (xs @ ys) = bursts xs @ bursts ys"
  by (simp add: bursts_def)

lemma bursts_single [simp]: "bursts [e] = burst_of e"
  by (simp add: bursts_def)

lemma counts_inv_launchConfettiWithDelay:
  "counts_inv P fw s \<Longrightarrow> count_ok P (defaults s ++ c) \<Longrightarrow> counts_inv P fw (launchConfettiWithDelay c s)"
  by (auto simp add: counts_inv_def launchConfettiWithDelay_def env_defs)

lemma env_of_prims [simp]:
  "env_of (emit e s) = env_of s"
  "env_of (snd (arm k d c s)) = env_of s"
  "env_of (snd (setTimeout c d s)) = env_of s"
  "env_of (snd (setInterval c d s)) = env_of s"
  "env_of (snd (requestAnimationFrame c s)) = env_of s"
  "env_of (clearInterval h s) = env_of s"
  "env_of (cancelAnimationFrame h s) = env_of s"
  "env_of (snd (random s)) = env_of s"
  "env_of (launchConfettiWithDelay o1 s) = env_of s"
  "env_of (launchConfetti o1 s) = env_of s"
  "env_of (s\<lparr>timerId := x\<rparr>) = env_of s"
  "env_of (s\<lparr>animationFrameId := y\<rparr>) = env_of s"
  "env_of (s\<lparr>confettiInstance := z\<rparr>) = env_of s"
  by (simp_all add: env_of_def env_defs launchConfettiWithDelay_def launchConfetti_def)

lemma env_of_shoot_loop [simp]: "env_of (shoot_loop n c p s) = env_of s"
  by (induction n arbitrary: s) (simp_all add: fall_burst_def split_beta)

lemma env_of_warn_fold [simp]: "env_of (foldl (\<lambda>st w. emit (Warn w) st) s ws) = env_of s"
  by (induction ws arbitrary: s) simp_all

lemma env_of_processShapes [simp]: "env_of (snd (processShapes c shs s)) = env_of s"
  by (induction shs arbitrary: s) (simp_all add: split_beta)

lemma env_of_reset [simp]: "env_of (reset type c s) = env_of s"
  by (simp add: reset_def Let_def)

lemma env_of_perform [simp]: "env_of (perform a s) = env_of s"
  by (cases a)
     (simp_all add: cannon_def randomDirection_def realistic_def realistic_fire_def fireworks_def
        stars_def snow_def fall_def pride_def custom_def infinite_def customCanvas_def
        split_beta Let_def split: option.splits)

lemma env_of_call_method [simp]: "env_of (call_method m oc s) = env_of s"
  using env_of_perform [of "Cannon c" s for c] env_of_perform [of "RandomDirection c" s for c]
    env_of_perform [of "Realistic c" s for c] env_of_perform [of "Fireworks c" s for c]
    env_of_perform [of "Stars c" s for c] env_of_perform [of "Snow c" s for c]
    env_of_perform [of "Fall c" s for c] env_of_perform [of "Pride c" s for c]
  by (cases m) (simp_all add: call_method_def split: option.splits)

lemma env_of_exec [simp]: "env_of (snd (exec h c s)) = env_of s"
  by (cases c)
     (simp_all add: launchConfetti_colors_def stopInfinite_def snow_frame_def
        pride_frame_def fireworks_fire_def fade_tick_def split_beta Let_def)

lemma prim_fields [simp]:
  "clock (emit e s) = clock s"
  "clock (snd (arm k d c s)) = clock s"
  "clock (snd (setTimeout c d s)) = clock s"
  "clock (snd (setInterval c d s)) = clock s"
  "clock (snd (requestAnimationFrame c s)) = clock s"
  "clock (clearInterval h s) = clock s"
  "clock (cancelAnimationFrame h s) = clock s"
  "clock (snd (random s)) = clock s"
  "clock (launchConfettiWithDelay o1 s) = clock s"
  "clock (launchConfetti o1 s) = clock s"
  "defaults (emit e s) = defaults s"
  "defaults (snd (arm k d c s)) = defaults s"
  "defaults (snd (setTimeout c d s)) = defaults s"
  "defaults (snd (setInterval c d s)) = defaults s"
  "defaults (snd (requestAnimationFrame c s)) = defaults s"
  "defaults (clearInterval h s) = defaults s"
  "defaults (cancelAnimationFrame h s) = defaults s"
  "defaults (snd (random s)) = defaults s"
  "defaults (launchConfettiWithDelay o1 s) = defaults s"
  "defaults (launchConfetti o1 s) = defaults s"
  "rand (emit e s) = rand s"
  "rand (snd (arm k d c s)) = rand s"
  "rand (snd (setTimeout c d s)) = rand s"
  "rand (snd (setInterval c d s)) = rand s"
  "rand (snd (requestAnimationFrame c s)) = rand s"
  "rand (clearInterval h s) = rand s"
  "rand (cancelAnimationFrame h s) = rand s"
  "rand (snd (random s)) = rand s"
  "rand (launchConfettiWithDelay o1 s) = rand s"
  "rand (launchConfetti o1 s) = rand s"
  by (simp_all add: env_defs launchConfettiWithDelay_def launchConfetti_def)

lemma random_value [simp]: "fst (random s) = rand s (randIx s)"
  by (simp add: random_def)

lemma counts_inv_arm:
  "counts_inv P fw s \<Longrightarrow> cb_ok P fw (defaults s) (clock s) c \<Longrightarrow> counts_inv P fw (snd (arm k d c s))"
  by (auto simp add: counts_inv_def arm_def)

lemma counts_inv_setTimeout:
  "counts_inv P fw s \<Longrightarrow> cb_ok P fw (defaults s) (clock s) c \<Longrightarrow> counts_inv P fw (snd (setTimeout c d s))"
  by (simp add: setTimeout_def counts_inv_arm)

lemma counts_inv_setInterval:
  "counts_inv P fw s \<Longrightarrow> cb_ok P fw (defaults s) (clock s) c \<Longrightarrow> counts_inv P fw (snd (setInterval c d s))"
  by (simp add: setInterval_def counts_inv_arm)

lemma counts_inv_requestAnimationFrame:
  "counts_inv P fw s \<Longrightarrow> cb_ok P fw (defaults s) (clock s) c \<Longrightarrow> counts_inv P fw (snd (requestAnimationFrame c s))"
  by (simp add: requestAnimationFrame_def counts_inv_arm)

lemma counts_inv_emit:
  "counts_inv P fw s \<Longrightarrow> list_all (count_ok P) (burst_of e) \<Longrightarrow> counts_inv P fw (emit e s)"
  by (auto simp add: counts_inv_def emit_def list_all_iff)

lemma counts_inv_launchConfetti:
  "counts_inv P fw s \<Longrightarrow> count_ok P (defaults s ++ c) \<Longrightarrow> counts_inv P fw (launchConfetti c s)"
  by (simp add: launchConfetti_def counts_inv_emit)

lemma counts_inv_clearInterval: "counts_inv P fw s \<Longrightarrow> counts_inv P fw (clearInterval h s)"
  by (auto simp add: counts_inv_def clearInterval_def emit_def)

lemma counts_inv_cancelAnimationFrame: "counts_inv P fw s \<Longrightarrow> counts_inv P fw (cancelAnimationFrame h s)"
  by (auto simp add: counts_inv_def cancelAnimationFrame_def emit_def)

lemma counts_inv_random: "counts_inv P fw s \<Longrightarrow> counts_inv P fw (snd (random s))"
  by (auto simp add: counts_inv_def random_def)

lemma counts_inv_fields:
  "counts_inv P fw s \<Longrightarrow> counts_inv P fw (s\<lparr>timerId := x\<rparr>)"
  "counts_inv P fw s \<Longrightarrow> counts_inv P fw (s\<lparr>animationFrameId := y\<rparr>)"
  "counts_inv P fw s \<Longrightarrow> counts_inv P fw (s\<lparr>confettiInstance := z\<rparr>)"
  by (auto simp add: counts_inv_def)

lemmas counts_inv_intros = counts_inv_launchConfettiWithDelay counts_inv_setTimeout
  counts_inv_setInterval counts_inv_requestAnimationFrame counts_inv_emit counts_inv_launchConfetti
  counts_inv_clearInterval counts_inv_cancelAnimationFrame counts_inv_random counts_inv_fields















lemma fields_processShapes [simp]:
  "clock (snd (processShapes c shs s)) = clock s"
  "defaults (snd (processShapes c shs s)) = defaults s"
  using env_of_processShapes [of c shs s] by (simp_all add: env_of_def)




lemma override_ok_empty [simp]: "override_ok P Map.empty"
  by (simp add: override_ok_def)










lemma fields_exec [simp]:
  "clock (snd (exec h c s)) = clock s"
  "defaults (snd (exec h c s)) = defaults s"
  using env_of_exec [of h c s] by (simp_all add: env_of_def)








lemma reach_fresh: "A no_options \<Longrightarrow> reach A fw fresh_state"
  unfolding fresh_state_def by (rule reach.start) (simp_all add: no_random_def)






subsection \<open>Delayed bursts and \<^verbatim>\<open>reset\<close>\<close>

text \<open>
  Claim C9. In every state a program can reach, with any options, a pending one-shot
  timer of \<^verbatim>\<open>launchConfettiWithDelay\<close> is still pending after \<^verbatim>\<open>reset\<close> in any mode and
  with any options; when the event loop then runs it, it dispatches its burst: the
  instance defaults overridden by the options it was scheduled with, on the surface
  bound at that time.
\<close>

theorem delayed_burst_survives_reset:
  assumes r: "reach any_options True s"
    and t: "t \<in> set (pending s)" and k: "kind t = Timeout" and c: "cb t = LaunchCb c"
  shows "t \<in> set (pending (reset type options s))
       \<and> trace (fire t (reset type options s))
           = trace (reset type options s) @ [Confetti (the_surface s) (defaults s ++ c)]"
proof -
  have "handles_ok s"
    using r by (rule reach_wf)
  with t k have nt: "timerId s \<noteq> Some (handle t)"
    by (auto simp add: handles_ok_def)
  have keep: "t \<in> set (pending (reset type options s))"
    using t k nt
    by (cases "timerId s"; cases "animationFrameId s") (auto simp add: reset_def env_defs Let_def)
  have same: "the_surface (reset type options s) = the_surface s"
    "defaults (reset type options s) = defaults s"
    by (simp_all add: reset_def env_defs Let_def the_surface_def)
  have "trace (fire t s') = trace s' @ [Confetti (the_surface s') (defaults s' ++ c)]" for s'
    using k c by (simp add: fire_def Let_def launchConfetti_def emit_def the_surface_def)
  with keep same show ?thesis by simp
qed

theorem delayed_burst_survives_reset_witness:
  "reach any_options True (cannon count_7 fresh_state)
   \<and> pending (cannon count_7 fresh_state)
       = [Task 1 Timeout 0 (LaunchCb ([FParticleCount \<mapsto> Num 100] ++ count_7))]
   \<and> pending (reset ''instant'' no_options (cannon count_7 fresh_state))
       = [Task 1 Timeout 0 (LaunchCb ([FParticleCount \<mapsto> Num 100] ++ count_7))]
   \<and> trace (fire (Task 1 Timeout 0 (LaunchCb ([FParticleCount \<mapsto> Num 100] ++ count_7)))
              (reset ''instant'' no_options (cannon count_7 fresh_state)))
       = [ConfettiReset,
          Confetti DefaultSurface (builtin_defaults ++ ([FParticleCount \<mapsto> Num 100] ++ count_7))]"
proof -
  let ?t = "Task 1 Timeout 0 (LaunchCb ([FParticleCount \<mapsto> Num 100] ++ count_7))"
  have r: "reach any_options True (cannon count_7 fresh_state)"
    using reach.call [OF reach_fresh, of any_options "Cannon count_7" True]
    by (simp add: any_options_def)
  have p: "pending (cannon count_7 fresh_state) = [?t]"
    by (simp add: cannon_def launchConfettiWithDelay_def fresh_defs env_defs num_or_def count_7_def)
  have q: "pending (reset ''instant'' no_options (cannon count_7 fresh_state)) = [?t]"
    "trace (reset ''instant'' no_options (cannon count_7 fresh_state)) = [ConfettiReset]"
    "the_surface (cannon count_7 fresh_state) = DefaultSurface"
    "defaults (cannon count_7 fresh_state) = builtin_defaults"
    by (simp_all add: reset_def cannon_def launchConfettiWithDelay_def fresh_defs env_defs
        num_or_def count_7_def the_surface_def)
  show ?thesis
    using r p q delayed_burst_survives_reset [OF r, of ?t _ "''instant''" no_options]
    by simp
qed

end
